theory Spec2Isabelle
  imports Complex_Main "HOL-Library.Multiset"
begin

section \<open>JavaScript numbers\<close>

text \<open>
  A JavaScript \<open>number\<close> is modelled as an exact real extended by the three special
  values of IEEE 754. Finite arithmetic is exact: the rounding of doubles and the sign
  of zero are not modelled (every divisor of the source is a length, a length minus
  one, or a positive constant, so a zero divisor is always \<open>+0\<close>).
\<close>

datatype jsnum = Fin real | PInf | NInf | NaN

fun js_neg :: "jsnum \<Rightarrow> jsnum" where
  "js_neg (Fin x) = Fin (- x)"
| "js_neg PInf = NInf"
| "js_neg NInf = PInf"
| "js_neg NaN = NaN"

fun js_add :: "jsnum \<Rightarrow> jsnum \<Rightarrow> jsnum" where
  "js_add (Fin x) (Fin y) = Fin (x + y)"
| "js_add NaN b = NaN"
| "js_add a NaN = NaN"
| "js_add PInf NInf = NaN"
| "js_add NInf PInf = NaN"
| "js_add PInf b = PInf"
| "js_add NInf b = NInf"
| "js_add a PInf = PInf"
| "js_add a NInf = NInf"

definition js_sub :: "jsnum \<Rightarrow> jsnum \<Rightarrow> jsnum" where
  "js_sub a b = js_add a (js_neg b)"

fun js_mul :: "jsnum \<Rightarrow> jsnum \<Rightarrow> jsnum" where
  "js_mul (Fin x) (Fin y) = Fin (x * y)"
| "js_mul NaN b = NaN"
| "js_mul a NaN = NaN"
| "js_mul PInf (Fin y) = (if y = 0 then NaN else if 0 < y then PInf else NInf)"
| "js_mul NInf (Fin y) = (if y = 0 then NaN else if 0 < y then NInf else PInf)"
| "js_mul (Fin x) PInf = (if x = 0 then NaN else if 0 < x then PInf else NInf)"
| "js_mul (Fin x) NInf = (if x = 0 then NaN else if 0 < x then NInf else PInf)"
| "js_mul PInf PInf = PInf"
| "js_mul PInf NInf = NInf"
| "js_mul NInf PInf = NInf"
| "js_mul NInf NInf = PInf"

fun js_div :: "jsnum \<Rightarrow> jsnum \<Rightarrow> jsnum" where
  "js_div (Fin x) (Fin y) =
     (if y \<noteq> 0 then Fin (x / y)
      else if x = 0 then NaN else if 0 < x then PInf else NInf)"
| "js_div NaN b = NaN"
| "js_div a NaN = NaN"
| "js_div (Fin x) PInf = Fin 0"
| "js_div (Fin x) NInf = Fin 0"
| "js_div PInf (Fin y) = (if 0 \<le> y then PInf else NInf)"
| "js_div NInf (Fin y) = (if 0 \<le> y then NInf else PInf)"
| "js_div PInf b = NaN"
| "js_div NInf b = NaN"

text \<open>The comparison operators: false as soon as one side is \<open>NaN\<close>.\<close>

fun js_gt :: "jsnum \<Rightarrow> jsnum \<Rightarrow> bool" where
  "js_gt (Fin x) (Fin y) = (y < x)"
| "js_gt NaN b = False"
| "js_gt a NaN = False"
| "js_gt PInf PInf = False"
| "js_gt PInf b = True"
| "js_gt NInf b = False"
| "js_gt (Fin x) PInf = False"
| "js_gt (Fin x) NInf = True"

definition js_lt :: "jsnum \<Rightarrow> jsnum \<Rightarrow> bool" where
  "js_lt a b = js_gt b a"

text \<open>\<open>Math.pow\<close> with a natural exponent, \<open>Math.sqrt\<close>, and the three roundings.
  \<open>Math.round\<close> rounds a half upwards, which is \<^const>\<open>round\<close>.\<close>

fun Math_pow :: "jsnum \<Rightarrow> nat \<Rightarrow> jsnum" where
  "Math_pow (Fin x) n = Fin (x ^ n)"
| "Math_pow PInf n = (if n = 0 then Fin 1 else PInf)"
| "Math_pow NInf n = (if n = 0 then Fin 1 else if even n then PInf else NInf)"
| "Math_pow NaN n = (if n = 0 then Fin 1 else NaN)"

fun Math_sqrt :: "jsnum \<Rightarrow> jsnum" where
  "Math_sqrt (Fin x) = (if x < 0 then NaN else Fin (sqrt x))"
| "Math_sqrt PInf = PInf"
| "Math_sqrt NInf = NaN"
| "Math_sqrt NaN = NaN"

fun Math_round :: "jsnum \<Rightarrow> jsnum" where
  "Math_round (Fin x) = Fin (of_int (round x))"
| "Math_round a = a"

fun Math_floor :: "jsnum \<Rightarrow> jsnum" where
  "Math_floor (Fin x) = Fin (of_int \<lfloor>x\<rfloor>)"
| "Math_floor a = a"

fun Math_ceil :: "jsnum \<Rightarrow> jsnum" where
  "Math_ceil (Fin x) = Fin (of_int \<lceil>x\<rceil>)"
| "Math_ceil a = a"

section \<open>The score normalizer\<close>

text \<open>\<open>zTransform (val, sourceMin, sourceMax, targetMin = 0, targetMax = 10)\<close>.
  Every caller passes three arguments, so the defaults apply: \<open>zTransform3\<close>.\<close>

definition zTransform :: "jsnum \<Rightarrow> jsnum \<Rightarrow> jsnum \<Rightarrow> jsnum \<Rightarrow> jsnum \<Rightarrow> jsnum" where
  "zTransform val sourceMin sourceMax targetMin targetMax =
     (let sourceRange = js_sub sourceMax sourceMin;
          targetRange = js_sub targetMax targetMin;
          percentage = js_div
            (Math_round (js_mul (js_div (js_sub val sourceMin) sourceRange) (Fin 100)))
            (Fin 100);
          targetVal = js_add targetMin (js_mul percentage targetRange)
      in Math_round targetVal)"

definition zTransform3 :: "jsnum \<Rightarrow> jsnum \<Rightarrow> jsnum \<Rightarrow> jsnum" where
  "zTransform3 val sourceMin sourceMax = zTransform val sourceMin sourceMax (Fin 0) (Fin 10)"

section \<open>The readability algorithms\<close>

text \<open>The length of a string or of an array, as a number.\<close>

definition js_length :: "'a list \<Rightarrow> jsnum" where
  "js_length xs = Fin (real (length xs))"

text \<open>\<open>words.join('').length / words.length\<close>\<close>

definition word_mean :: "string list \<Rightarrow> jsnum" where
  "word_mean words = js_div (js_length (concat words)) (js_length words)"

text \<open>\<open>for (let word of words) sos += Math.pow(word.length - mean, 2)\<close>, from \<open>sos = 0\<close>\<close>

definition word_sos :: "jsnum \<Rightarrow> string list \<Rightarrow> jsnum" where
  "word_sos mean words =
     foldl (\<lambda>sos word. js_add sos (Math_pow (js_sub (js_length word) mean) 2)) (Fin 0) words"

text \<open>\<open>Math.sqrt(sos / (words.length - 1))\<close>\<close>

definition word_std :: "string list \<Rightarrow> jsnum" where
  "word_std words =
     Math_sqrt (js_div (word_sos (word_mean words) words) (js_sub (js_length words) (Fin 1)))"

text \<open>\<open>mean + 2 * std\<close>\<close>

definition wordThreshold :: "string list \<Rightarrow> jsnum" where
  "wordThreshold words = js_add (word_mean words) (js_mul (Fin 2) (word_std words))"

text \<open>\<open>for (let word of words) if (word.length > wordThreshold) difficultWords++\<close>\<close>

definition count_difficult :: "jsnum \<Rightarrow> string list \<Rightarrow> jsnum" where
  "count_difficult threshold words =
     foldl (\<lambda>difficultWords word.
              if js_gt (js_length word) threshold then js_add difficultWords (Fin 1)
              else difficultWords) (Fin 0) words"

definition difficultWords :: "string list \<Rightarrow> jsnum" where
  "difficultWords words = count_difficult (wordThreshold words) words"

definition dale_chall :: "string list \<Rightarrow> jsnum" where
  "dale_chall words =
     (let totalSize = js_length words;
          percentageOfDifficultWords = js_div (difficultWords words) totalSize;
          score = js_add (js_mul (js_mul (Fin (1579 / 10000)) percentageOfDifficultWords) (Fin 100))
                         (js_mul (Fin (496 / 10000)) totalSize);
          score = (if js_gt percentageOfDifficultWords (Fin (5 / 100))
                   then js_add score (Fin (36365 / 10000)) else score);
          score = Math_floor score;
          score = (if js_lt score (Fin 0) then Fin 0 else score);
          score = (if js_gt score (Fin 9) then Fin 10 else score)
      in zTransform3 score (Fin 0) (Fin 10))"

definition gunning_fog :: "string list \<Rightarrow> jsnum" where
  "gunning_fog words =
     (let score = js_mul (Fin (4 / 10))
                    (js_add (js_length words)
                       (js_div (js_mul (Fin 100) (difficultWords words)) (js_length words)));
          score = (if js_lt score (Fin 0) then Fin 0 else score);
          score = (if js_gt score (Fin 20) then Fin 20 else score)
      in zTransform3 score (Fin 0) (Fin 20))"

definition coleman_liau :: "string list \<Rightarrow> jsnum" where
  "coleman_liau words =
     (let mean = word_mean words;
          score = js_sub (js_sub (js_mul (Fin (589 / 100)) mean)
                            (js_div (Fin (3 / 10)) (js_mul (Fin 100) (js_length words))))
                         (Fin (158 / 10));
          score = (if js_lt score (Fin 0) then Fin 0 else score);
          score = (if js_gt score (Fin 30) then Fin 30 else score)
      in zTransform3 score (Fin 0) (Fin 30))"

definition automated_readability :: "string list \<Rightarrow> jsnum" where
  "automated_readability words =
     (let mean = word_mean words;
          score = js_sub (js_add (js_mul (Fin (471 / 100)) mean)
                            (js_mul (Fin (5 / 10)) (js_length words)))
                         (Fin (2143 / 100));
          score = Math_ceil score;
          score = (if js_lt score (Fin 0) then Fin 0 else score);
          score = (if js_gt score (Fin 50) then Fin 50 else score)
      in zTransform3 score (Fin 0) (Fin 50))"

text \<open>The table of algorithms, keyed by name; an unknown name gives \<open>undefined\<close>
  (the names that an object inherits from \<open>Object.prototype\<close> are not modelled).\<close>

definition readabilityAlgorithms :: "string \<rightharpoonup> (string list \<Rightarrow> jsnum)" where
  "readabilityAlgorithms =
     [''dale-chall'' \<mapsto> dale_chall,
      ''gunning-fog'' \<mapsto> gunning_fog,
      ''coleman-liau'' \<mapsto> coleman_liau,
      ''automated-readability'' \<mapsto> automated_readability]"

section \<open>Strings\<close>

text \<open>
  A JavaScript string is a sequence of code units; here a \<^typ>\<open>string\<close>, whose
  characters stand for the code units below 256. \<open>is_space\<close> is the class \<open>\s\<close>
  (and what \<open>trim\<close> removes) on these, \<open>is_line_terminator\<close> the characters after
  which \<open>^\<close> and before which \<open>$\<close> match under the \<open>m\<close> flag.
\<close>

definition is_space :: "char \<Rightarrow> bool" where
  "is_space c = (c \<in> set [CHR 0x09, CHR 0x0A, CHR 0x0B, CHR 0x0C, CHR 0x0D, CHR 0x20, CHR 0xA0])"

definition is_line_terminator :: "char \<Rightarrow> bool" where
  "is_line_terminator c = (c = CHR 0x0A \<or> c = CHR 0x0D)"

definition one_of :: "string \<Rightarrow> char \<Rightarrow> bool" where
  "one_of cs c = (c \<in> set cs)"

definition none_of :: "string \<Rightarrow> char \<Rightarrow> bool" where
  "none_of cs c = (c \<notin> set cs)"

definition any_char :: "char \<Rightarrow> bool" where
  "any_char c = True"

text \<open>\<open>text.indexOf(pattern, position)\<close>: the position is clamped to the text, the
  result is \<open>-1\<close> when there is no occurrence from there on.\<close>

fun find_at :: "string \<Rightarrow> string \<Rightarrow> nat \<Rightarrow> nat option" where
  "find_at pat [] k = (if pat = [] then Some k else None)"
| "find_at pat (c # cs) k =
     (if take (length pat) (c # cs) = pat then Some k else find_at pat cs (Suc k))"

definition indexOf :: "string \<Rightarrow> string \<Rightarrow> int \<Rightarrow> int" where
  "indexOf text pat position =
     (let start = min (nat (max 0 position)) (length text)
      in case find_at pat (drop start text) start of Some k \<Rightarrow> int k | None \<Rightarrow> - 1)"

text \<open>\<open>text.charAt(i)\<close> is the empty string out of range; \<open>s.includes(t)\<close>.\<close>

definition charAt :: "string \<Rightarrow> int \<Rightarrow> string" where
  "charAt text i = (if 0 \<le> i \<and> i < int (length text) then [text ! nat i] else [])"

definition js_includes :: "string \<Rightarrow> string \<Rightarrow> bool" where
  "js_includes s t = (indexOf s t 0 \<noteq> - 1)"

definition trim :: "string \<Rightarrow> string" where
  "trim s = rev (dropWhile is_space (rev (dropWhile is_space s)))"

text \<open>\<open>s.split(' ')\<close>, a split at one character; the empty string gives \<open>['']\<close>.\<close>

fun split_char :: "char \<Rightarrow> string \<Rightarrow> string list" where
  "split_char sep [] = [[]]"
| "split_char sep (c # cs) =
     (let r = split_char sep cs
      in if c = sep then [] # r else (c # hd r) # tl r)"

section \<open>Regular expressions\<close>

text \<open>
  The regular expressions of the source use single characters and character classes,
  greedy and lazy repetition of a class, the anchors \<open>^\<close> and \<open>$\<close> (always under the
  \<open>m\<close> flag), alternation and one capturing group. A pattern is a sequence of items;
  \<open>Rep greedy lo hi cls\<close> is \<open>cls{lo,hi}\<close>, lazy when \<open>greedy\<close> is false and unbounded
  when \<open>hi\<close> is \<open>None\<close>; \<open>GOpen\<close> and \<open>GClose\<close> are the parentheses of group 1.
\<close>

datatype rx_item =
    Chr "char \<Rightarrow> bool"
  | Rep bool nat "nat option" "char \<Rightarrow> bool"
  | Bol
  | Eol
  | Alt "rx_item list" "rx_item list"
  | GOpen
  | GClose

type_synonym capture = "(nat \<times> nat) option"

fun rx_weight :: "rx_item \<Rightarrow> nat" where
  "rx_weight (Alt a b) = Suc (sum_list (map rx_weight a) + sum_list (map rx_weight b))"
| "rx_weight (Chr c) = 1"
| "rx_weight (Rep g lo hi c) = 1"
| "rx_weight Bol = 1"
| "rx_weight Eol = 1"
| "rx_weight GOpen = 1"
| "rx_weight GClose = 1"

fun first_some :: "('a \<Rightarrow> 'b option) \<Rightarrow> 'a list \<Rightarrow> 'b option" where
  "first_some f [] = None"
| "first_some f (k # ks) = (case f k of Some m \<Rightarrow> Some m | None \<Rightarrow> first_some f ks)"

text \<open>How many characters a repetition can take at most, and the counts it tries, in
  the order it tries them.\<close>

definition run_length :: "(char \<Rightarrow> bool) \<Rightarrow> nat option \<Rightarrow> string \<Rightarrow> nat" where
  "run_length cls hi rest =
     (let m = length (takeWhile cls rest)
      in case hi of None \<Rightarrow> m | Some h \<Rightarrow> min h m)"

definition rep_counts :: "bool \<Rightarrow> nat \<Rightarrow> nat \<Rightarrow> nat list" where
  "rep_counts greedy lo n = (if greedy then rev [lo..<Suc n] else [lo..<Suc n])"

definition prev_after :: "char option \<Rightarrow> string \<Rightarrow> nat \<Rightarrow> char option" where
  "prev_after prev rest k = (if k = 0 then prev else Some (rest ! (k - 1)))"

text \<open>
  The backtracking matcher, at one position: \<open>prev\<close> is the character before the
  position (\<open>None\<close> at the start of the input), \<open>rest\<close> the input from the position on,
  \<open>pos\<close> the number of characters matched so far, \<open>g\<close> where group 1 was opened. The
  result is that of the first way to match, in the priority order of the engine: the
  length of the match and the capture.
\<close>

function rx_match ::
  "rx_item list \<Rightarrow> char option \<Rightarrow> string \<Rightarrow> nat \<Rightarrow> nat \<Rightarrow> capture \<Rightarrow> (nat \<times> capture) option"
where
  "rx_match [] prev rest pos g cap = Some (pos, cap)"
| "rx_match (Chr cls # r) prev rest pos g cap =
     (case rest of
        [] \<Rightarrow> None
      | x # xs \<Rightarrow> if cls x then rx_match r (Some x) xs (Suc pos) g cap else None)"
| "rx_match (Rep greedy lo hi cls # r) prev rest pos g cap =
     first_some (\<lambda>k. rx_match r (prev_after prev rest k) (drop k rest) (pos + k) g cap)
       (rep_counts greedy lo (run_length cls hi rest))"
| "rx_match (Bol # r) prev rest pos g cap =
     (if (case prev of None \<Rightarrow> True | Some p \<Rightarrow> is_line_terminator p)
      then rx_match r prev rest pos g cap else None)"
| "rx_match (Eol # r) prev rest pos g cap =
     (if (case rest of [] \<Rightarrow> True | x # xs \<Rightarrow> is_line_terminator x)
      then rx_match r prev rest pos g cap else None)"
| "rx_match (Alt a b # r) prev rest pos g cap =
     (case rx_match (a @ r) prev rest pos g cap of
        Some m \<Rightarrow> Some m
      | None \<Rightarrow> rx_match (b @ r) prev rest pos g cap)"
| "rx_match (GOpen # r) prev rest pos g cap = rx_match r prev rest pos pos cap"
| "rx_match (GClose # r) prev rest pos g cap = rx_match r prev rest pos g (Some (g, pos))"
  by pat_completeness auto
termination
  by (relation "measure (\<lambda>(items, prev, rest, pos, g, cap). sum_list (map rx_weight items))") auto

definition rx_exec :: "rx_item list \<Rightarrow> char option \<Rightarrow> string \<Rightarrow> (nat \<times> capture) option" where
  "rx_exec rx prev rest = rx_match rx prev rest 0 0 None"

text \<open>The text of group 1 in a match that starts at \<open>rest\<close>, for the replacement.\<close>

definition capture_text :: "string \<Rightarrow> capture \<Rightarrow> string option" where
  "capture_text rest cap =
     (case cap of None \<Rightarrow> None | Some (s, e) \<Rightarrow> Some (take (e - s) (drop s rest)))"

text \<open>
  \<open>s.replace(rx, replacement)\<close> with the \<open>g\<close> flag: every match from left to right,
  the search going on behind each match (one character further after an empty one).
  The replacement is a function of the capture: constant for \<open>''\<close>, the capture for
  \<open>'$1'\<close>.
\<close>

fun replace_all :: "rx_item list \<Rightarrow> (string option \<Rightarrow> string) \<Rightarrow> char option \<Rightarrow> string \<Rightarrow> string" where
  "replace_all rx repl prev [] =
     (case rx_exec rx prev [] of
        None \<Rightarrow> []
      | Some (n, cap) \<Rightarrow> repl (capture_text [] cap))"
| "replace_all rx repl prev (c # cs) =
     (case rx_exec rx prev (c # cs) of
        None \<Rightarrow> c # replace_all rx repl (Some c) cs
      | Some (n, cap) \<Rightarrow>
          repl (capture_text (c # cs) cap) @
          (if n = 0 then c # replace_all rx repl (Some c) cs
           else replace_all rx repl (Some ((c # cs) ! (n - 1))) (drop (n - 1) cs)))"

text \<open>Without the \<open>g\<close> flag only the first match is replaced.\<close>

fun replace_first :: "rx_item list \<Rightarrow> (string option \<Rightarrow> string) \<Rightarrow> char option \<Rightarrow> string \<Rightarrow> string" where
  "replace_first rx repl prev [] =
     (case rx_exec rx prev [] of
        None \<Rightarrow> []
      | Some (n, cap) \<Rightarrow> repl (capture_text [] cap))"
| "replace_first rx repl prev (c # cs) =
     (case rx_exec rx prev (c # cs) of
        None \<Rightarrow> c # replace_first rx repl (Some c) cs
      | Some (n, cap) \<Rightarrow> repl (capture_text (c # cs) cap) @ drop n (c # cs))"

definition to_empty :: "string option \<Rightarrow> string" where
  "to_empty cap = []"

definition to_group1 :: "string option \<Rightarrow> string" where
  "to_group1 cap = (case cap of None \<Rightarrow> [] | Some t \<Rightarrow> t)"

text \<open>
  \<open>s.split(rx)\<close>: the separator is tried at each position in turn; \<open>cur\<close> is the piece
  since the last separator. An empty match splits only behind a non-empty piece.
\<close>

fun split_loop :: "rx_item list \<Rightarrow> char option \<Rightarrow> string \<Rightarrow> string \<Rightarrow> string list" where
  "split_loop rx prev [] cur = [cur]"
| "split_loop rx prev (c # cs) cur =
     (case rx_exec rx prev (c # cs) of
        None \<Rightarrow> split_loop rx (Some c) cs (cur @ [c])
      | Some (n, cap) \<Rightarrow>
          if n = 0 then
            (if cur = [] then split_loop rx (Some c) cs [c]
             else cur # split_loop rx (Some c) cs [c])
          else cur # split_loop rx (Some ((c # cs) ! (n - 1))) (drop (n - 1) cs) [])"

definition split_rx :: "rx_item list \<Rightarrow> string \<Rightarrow> string list" where
  "split_rx rx s =
     (if s = [] then (case rx_exec rx None [] of None \<Rightarrow> [[]] | Some m \<Rightarrow> [])
      else split_loop rx None s [])"

section \<open>The sentence extractor\<close>

subsection \<open>The patterns of \<open>extractScores\<close>\<close>

text \<open>\<open>/^`{1,3}.+?^`{1,3}$/gsm\<close> (the backtick is character 0x60)\<close>

definition rx_code_block :: "rx_item list" where
  "rx_code_block =
     [Bol, Rep True 1 (Some 3) (one_of [CHR 0x60]), Rep False 1 None any_char,
      Bol, Rep True 1 (Some 3) (one_of [CHR 0x60]), Eol]"

text \<open>\<open>/^-{3}.+?^(?:-{3}|\.{3})$/gsm\<close>\<close>

definition rx_frontmatter :: "rx_item list" where
  "rx_frontmatter =
     [Bol, Rep True 3 (Some 3) (one_of ''-''), Rep False 1 None any_char,
      Bol, Alt [Rep True 3 (Some 3) (one_of ''-'')] [Rep True 3 (Some 3) (one_of ''.'')], Eol]"

text \<open>\<open>/^#{1,6}\s+/gm\<close>\<close>

definition rx_heading :: "rx_item list" where
  "rx_heading = [Bol, Rep True 1 (Some 6) (one_of ''#''), Rep True 1 None is_space]"

text \<open>\<open>/^\s*[-+*]\s\[[x\s]\]\s/gmi\<close>; under the \<open>i\<close> flag \<open>x\<close> is also \<open>X\<close>.\<close>

definition rx_checkbox :: "rx_item list" where
  "rx_checkbox =
     [Bol, Rep True 0 None is_space, Chr (one_of ''-+*''), Chr is_space, Chr (one_of ''[''),
      Chr (\<lambda>c. c = CHR ''x'' \<or> c = CHR ''X'' \<or> is_space c), Chr (one_of '']''), Chr is_space]"

text \<open>\<open>/[.:!?]\s+|\n/ig\<close>\<close>

definition rx_sentence_end :: "rx_item list" where
  "rx_sentence_end =
     [Alt [Chr (one_of ''.:!?''), Rep True 1 None is_space] [Chr (one_of [CHR 0x0A])]]"

text \<open>\<open>/[*_]{1,3}[^_*]+[_*]{1,3}/g\<close>\<close>

definition rx_emphasis :: "rx_item list" where
  "rx_emphasis =
     [Rep True 1 (Some 3) (one_of ''*_''), Rep True 1 None (none_of ''_*''),
      Rep True 1 (Some 3) (one_of ''_*'')]"

text \<open>\<open>/\[\[[^\]]+\[\[/g\<close>\<close>

definition rx_wikilink :: "rx_item list" where
  "rx_wikilink =
     [Chr (one_of ''[''), Chr (one_of ''[''), Rep True 1 None (none_of '']''),
      Chr (one_of ''[''), Chr (one_of ''['')]"

text \<open>\<open>/!\[[^\]]+\]\([^)]+\)/g\<close>\<close>

definition rx_image :: "rx_item list" where
  "rx_image =
     [Chr (one_of ''!''), Chr (one_of ''[''), Rep True 1 None (none_of '']''), Chr (one_of '']''),
      Chr (one_of ''(''), Rep True 1 None (none_of '')''), Chr (one_of '')'')]"

text \<open>\<open>/\[([^\]]+)\]\([^)]+\)/g\<close>\<close>

definition rx_link :: "rx_item list" where
  "rx_link =
     [Chr (one_of ''[''), GOpen, Rep True 1 None (none_of '']''), GClose, Chr (one_of '']''),
      Chr (one_of ''(''), Rep True 1 None (none_of '')''), Chr (one_of '')'')]"

text \<open>\<open>/\[[^[\]]*@[^[\]]+\]/\<close> (no \<open>g\<close> flag)\<close>

definition rx_citation :: "rx_item list" where
  "rx_citation =
     [Chr (one_of ''[''), Rep True 0 None (none_of ''[]''), Chr (one_of ''@''),
      Rep True 1 None (none_of ''[]''), Chr (one_of '']'')]"

subsection \<open>The stages of \<open>extractScores\<close>\<close>

text \<open>The four block-level replacements, then the split into candidate sentences.\<close>

definition strip_blocks :: "string \<Rightarrow> string" where
  "strip_blocks text =
     replace_all rx_checkbox to_empty None
       (replace_all rx_heading to_empty None
          (replace_all rx_frontmatter to_empty None
             (replace_all rx_code_block to_empty None text)))"

definition candidates :: "string \<Rightarrow> string list" where
  "candidates text = split_rx rx_sentence_end (strip_blocks text)"

text \<open>The five inline replacements on the copy of the sentence.\<close>

definition strip_inline :: "string \<Rightarrow> string" where
  "strip_inline sentence =
     replace_first rx_citation to_empty None
       (replace_all rx_link to_group1 None
          (replace_all rx_image to_empty None
             (replace_all rx_wikilink to_empty None
                (replace_all rx_emphasis to_empty None sentence))))"

record js_range =
  rfrom :: int
  rto :: int

record located = js_range +
  sentence :: string

record scored = js_range +
  score :: jsnum

record decoration = js_range +
  deco_class :: string

text \<open>
  The first \<open>map\<close>, with the variable \<open>lastSeenIndex\<close> that its callback reads and
  writes passed along from one candidate to the next.
\<close>

definition locate1 :: "string \<Rightarrow> int \<Rightarrow> int \<Rightarrow> string \<Rightarrow> located \<times> int" where
  "locate1 text offset lastSeenIndex s =
     (let idx = indexOf text s lastSeenIndex;
          lastSeenIndex = idx + int (length s);
          rangeEnd = lastSeenIndex;
          rangeEnd = (if js_includes ''.:!?'' (charAt text rangeEnd) then rangeEnd + 1 else rangeEnd)
      in (\<lparr>rfrom = offset + idx, rto = offset + rangeEnd, sentence = strip_inline s\<rparr>,
          lastSeenIndex))"

fun locate :: "string \<Rightarrow> int \<Rightarrow> int \<Rightarrow> string list \<Rightarrow> located list" where
  "locate text offset lastSeenIndex [] = []"
| "locate text offset lastSeenIndex (s # ss) =
     (let (v, lastSeenIndex) = locate1 text offset lastSeenIndex s
      in v # locate text offset lastSeenIndex ss)"

text \<open>\<open>v.sentence.trim().split(' ').filter(word => word !== '')\<close>\<close>

definition tokenize :: "string \<Rightarrow> string list" where
  "tokenize s = filter (\<lambda>word. word \<noteq> []) (split_char CHR '' '' (trim s))"

text \<open>The eleven decorations, by the class they mark.\<close>

definition scoreDecorations :: "string list" where
  "scoreDecorations =
     [''cm-readability-0'', ''cm-readability-1'', ''cm-readability-2'', ''cm-readability-3'',
      ''cm-readability-4'', ''cm-readability-5'', ''cm-readability-6'', ''cm-readability-7'',
      ''cm-readability-8'', ''cm-readability-9'', ''cm-readability-10'']"

text \<open>\<open>array[v]\<close> for a number \<open>v\<close>: an element at an integer within the array,
  \<open>undefined\<close> (here \<open>None\<close>) at any other number.\<close>

fun js_index :: "'a list \<Rightarrow> jsnum \<Rightarrow> 'a option" where
  "js_index xs (Fin r) =
     (if 0 \<le> r \<and> r = of_int \<lfloor>r\<rfloor> \<and> nat \<lfloor>r\<rfloor> < length xs then Some (xs ! nat \<lfloor>r\<rfloor>) else None)"
| "js_index xs a = None"

text \<open>Calling \<open>undefined\<close> and reading a property of \<open>undefined\<close> throw a TypeError.\<close>

datatype error = TypeError

fun map_result :: "('a \<Rightarrow> error + 'b) \<Rightarrow> 'a list \<Rightarrow> error + 'b list" where
  "map_result f [] = Inr []"
| "map_result f (x # xs) =
     (case f x of
        Inl e \<Rightarrow> Inl e
      | Inr y \<Rightarrow> (case map_result f xs of Inl e \<Rightarrow> Inl e | Inr ys \<Rightarrow> Inr (y # ys)))"

definition score1 :: "string \<Rightarrow> located \<Rightarrow> error + scored" where
  "score1 algorithm v =
     (let words = tokenize (sentence v)
      in case readabilityAlgorithms algorithm of
           None \<Rightarrow> Inl TypeError
         | Some f \<Rightarrow> Inr \<lparr>rfrom = rfrom v, rto = rto v, score = f words\<rparr>)"

definition decorate1 :: "scored \<Rightarrow> error + decoration" where
  "decorate1 v =
     (case js_index scoreDecorations (score v) of
        None \<Rightarrow> Inl TypeError
      | Some cls \<Rightarrow> Inr \<lparr>rfrom = rfrom v, rto = rto v, deco_class = cls\<rparr>)"

definition long_enough :: "located \<Rightarrow> bool" where
  "long_enough v = (2 \<le> length (sentence v))"

definition extractScores :: "string \<Rightarrow> int \<Rightarrow> string \<Rightarrow> error + decoration list" where
  "extractScores text offset algorithm =
     (case map_result (score1 algorithm)
             (filter long_enough (locate text offset 0 (candidates text))) of
        Inl e \<Rightarrow> Inl e
      | Inr vs \<Rightarrow> map_result decorate1 vs)"

section \<open>Properties of the normalizer and of the algorithms\<close>

lemmas num_defs = js_length_def word_mean_def word_sos_def word_std_def wordThreshold_def
  count_difficult_def difficultWords_def js_sub_def js_lt_def zTransform_def zTransform3_def Let_def




text \<open>A value within the source range is normalized to an integer from 0 to 10.\<close>

lemma zTransform3_range:
  assumes "0 \<le> v" "v \<le> S" "0 < S"
  shows "\<exists>k. 0 \<le> k \<and> k \<le> 10 \<and> zTransform3 (Fin v) (Fin 0) (Fin S) = Fin (of_int k)"
proof -
  define p where "p = round (v / S * 100)"
  have "0 \<le> v / S * 100" "v / S * 100 \<le> 100"
    using assms by (simp_all add: divide_le_eq)
  then have "round (0::real) \<le> p" "p \<le> round (100::real)"
    unfolding p_def by (simp_all only: round_mono)
  then have p: "0 \<le> p" "p \<le> 100" by simp_all
  define k where "k = round (of_int p / 100 * (10::real))"
  have "0 \<le> real_of_int p / 100 * 10" "real_of_int p / 100 * 10 \<le> 10"
    using p by simp_all
  then have "round (0::real) \<le> k" "k \<le> round (10::real)"
    unfolding k_def by (simp_all only: round_mono)
  then have "0 \<le> k" "k \<le> 10" by simp_all
  moreover have "zTransform3 (Fin v) (Fin 0) (Fin S) = Fin (of_int k)"
    using assms by (simp add: num_defs k_def p_def)
  ultimately show ?thesis by blast
qed

lemma word_mean_nonempty:
  "words \<noteq> [] \<Longrightarrow> word_mean words = Fin (real (length (concat words)) / real (length words))"
  by (simp add: word_mean_def js_length_def)

text \<open>The two clamping statements on an integer score.\<close>

lemma clamp_int:
  assumes "0 \<le> hi"
  shows "(let score = Fin (real_of_int c);
              score = (if js_lt score (Fin 0) then Fin 0 else score);
              score = (if js_gt score (Fin (real_of_int hi)) then Fin (real_of_int hi) else score)
          in f score) = f (Fin (of_int (min hi (max 0 c))))"
  using assms by (auto simp add: Let_def js_lt_def min_def max_def)

text \<open>
  C9: for a non-empty word list the Automated Readability Index is
  \<open>4.71 * mean + 0.5 * total - 21.43\<close>, rounded up with the ceiling, clamped to
  \<open>[0, 50]\<close> and normalized from the source range \<open>[0, 50]\<close>; the result is an
  integer from 0 to 10.
\<close>

theorem automated_readability_formula:
  assumes "words \<noteq> []"
  shows "automated_readability words =
           zTransform
             (Fin (of_int (min 50 (max 0
                \<lceil>471 / 100 * (real (length (concat words)) / real (length words))
                  + 5 / 10 * real (length words) - 2143 / 100\<rceil>))))
             (Fin 0) (Fin 50) (Fin 0) (Fin 10)
         \<and> (\<exists>k. 0 \<le> k \<and> k \<le> 10 \<and> automated_readability words = Fin (of_int k))"
proof -
  define x where "x = 471 / 100 * (real (length (concat words)) / real (length words))
                  + 5 / 10 * real (length words) - 2143 / 100"
  define c where "c = \<lceil>x\<rceil>"
  have raw: "js_sub (js_add (js_mul (Fin (471 / 100)) (word_mean words))
                            (js_mul (Fin (5 / 10)) (js_length words)))
                    (Fin (2143 / 100)) = Fin x"
    using assms by (simp add: word_mean_nonempty js_length_def js_sub_def x_def)
  have "automated_readability words =
     (let score = Fin (real_of_int c);
          score = (if js_lt score (Fin 0) then Fin 0 else score);
          score = (if js_gt score (Fin (real_of_int 50)) then Fin (real_of_int 50) else score)
      in zTransform3 score (Fin 0) (Fin 50))"
    unfolding automated_readability_def Let_def raw c_def by simp
  also have "\<dots> = zTransform3 (Fin (of_int (min 50 (max 0 c)))) (Fin 0) (Fin 50)"
    by (rule clamp_int) simp
  finally have eq: "automated_readability words =
      zTransform3 (Fin (of_int (min 50 (max 0 c)))) (Fin 0) (Fin 50)" .
  have "\<exists>k. 0 \<le> k \<and> k \<le> 10 \<and>
      zTransform3 (Fin (of_int (min 50 (max 0 c)))) (Fin 0) (Fin 50) = Fin (of_int k)"
    by (rule zTransform3_range) simp_all
  with eq show ?thesis unfolding zTransform3_def c_def x_def by simp
qed

theorem automated_readability_formula_witness:
  "[''hello'', ''world''] \<noteq> ([] :: string list) \<and>
   automated_readability [''hello'', ''world''] = Fin 1"
  using automated_readability_formula [of "[''hello'', ''world'']"]
  by (simp add: num_defs round_def)








text \<open>
  C4, as the code has it: on the word list \<open>["a"]\<close> each of the four algorithms returns
  the score 0, and no word of a one-word list is counted as difficult. The standard
  deviation of a one-word list is not zero: it is \<open>NaN\<close> (from \<open>0 / 0\<close>), so is the
  threshold, and the comparison of a length with \<open>NaN\<close> is false.
\<close>

theorem single_word_not_difficult:
  "dale_chall [''a''] = Fin 0 \<and> gunning_fog [''a''] = Fin 0 \<and>
   coleman_liau [''a''] = Fin 0 \<and> automated_readability [''a''] = Fin 0 \<and>
   word_std [w] = NaN \<and> wordThreshold [w] = NaN \<and> difficultWords [w] = Fin 0"
  by (simp add: num_defs dale_chall_def gunning_fog_def coleman_liau_def
      automated_readability_def round_def)

text \<open>C4, as the claim has it, fails: the standard deviation of \<open>["a"]\<close> is not 0.\<close>

theorem single_word_std_not_zero:
  "word_std [''a''] \<noteq> Fin 0"
  by (simp add: num_defs)

section \<open>Properties of the extractor\<close>

lemmas alg_defs = dale_chall_def gunning_fog_def coleman_liau_def automated_readability_def

lemma algorithms_cases:
  "readabilityAlgorithms a = Some f \<longleftrightarrow>
     a = ''dale-chall'' \<and> f = dale_chall \<or> a = ''gunning-fog'' \<and> f = gunning_fog \<or>
     a = ''coleman-liau'' \<and> f = coleman_liau \<or>
     a = ''automated-readability'' \<and> f = automated_readability"
  by (auto simp: readabilityAlgorithms_def)

subsection \<open>Scores of the word lists of the examples\<close>

lemma scores_Go:
  "dale_chall [''Go''] = Fin 0" "gunning_fog [''Go''] = Fin 0"
  "coleman_liau [''Go''] = Fin 0" "automated_readability [''Go''] = Fin 0"
  "dale_chall [''Go.''] = Fin 0" "gunning_fog [''Go.''] = Fin 0"
  "coleman_liau [''Go.''] = Fin 1" "automated_readability [''Go.''] = Fin 0"
  by (simp_all add: num_defs alg_defs round_def)

lemma scores_misc:
  "dale_chall [''ab''] = Fin 0" "dale_chall [''.cd''] = Fin 0" "dale_chall [''a''] = Fin 0"
  "dale_chall [[CHR ''a'', CHR ''b'', CHR 0x0D, CHR ''c'', CHR ''d'']] = Fin 0"
  by (simp_all add: num_defs alg_defs round_def)

text \<open>On the empty word list the mean is \<open>0 / 0\<close>, and every score is \<open>NaN\<close>.\<close>

lemma scores_empty:
  "dale_chall [] = NaN" "gunning_fog [] = NaN" "coleman_liau [] = NaN"
  "automated_readability [] = NaN"
  by (simp_all add: num_defs alg_defs)

lemma deco_0_1:
  "js_index scoreDecorations (Fin 0) = Some ''cm-readability-0''"
  "js_index scoreDecorations (Fin 1) = Some ''cm-readability-1''"
  by (simp_all add: scoreDecorations_def)

subsection \<open>The claims on the extractor\<close>

text \<open>
  C1, at a text that breaks it: a fenced code block holding \<open>ab.cd\<close>, then the lines
  \<open>ab\<close> and \<open>.cd\<close>. The search for \<open>ab\<close> stops inside the removed code block, its
  range is extended over the full stop behind it, and the search for \<open>.cd\<close> starts
  at that full stop: the two ranges \<open>[4, 7)\<close> and \<open>[6, 9)\<close> overlap.
\<close>

theorem extractScores_code_block_overlap:
  "extractScores
     ([CHR 0x60, CHR 0x60, CHR 0x60, CHR 0x0A] @ ''ab.cd'' @
      [CHR 0x0A, CHR 0x60, CHR 0x60, CHR 0x60, CHR 0x0A] @ ''ab'' @ [CHR 0x0A] @ ''.cd'')
     0 ''dale-chall'' =
   Inr [\<lparr>rfrom = 4, rto = 7, deco_class = ''cm-readability-0''\<rparr>,
        \<lparr>rfrom = 6, rto = 9, deco_class = ''cm-readability-0''\<rparr>]"
proof -
  define T where "T = [CHR 0x60, CHR 0x60, CHR 0x60, CHR 0x0A] @ ''ab.cd'' @
      [CHR 0x0A, CHR 0x60, CHR 0x60, CHR 0x60, CHR 0x0A] @ ''ab'' @ [CHR 0x0A] @ ''.cd''"
  have kept: "filter long_enough (locate T 0 0 (candidates T)) =
    [\<lparr>rfrom = 4, rto = 7, sentence = ''ab''\<rparr>, \<lparr>rfrom = 6, rto = 9, sentence = ''.cd''\<rparr>]"
    unfolding T_def by code_simp
  have tok: "tokenize ''ab'' = [''ab'']" "tokenize ''.cd'' = [''.cd'']"
    by code_simp+
  show ?thesis
    unfolding extractScores_def T_def [symmetric] kept
    by (simp add: score1_def tok algorithms_cases [THEN iffD2] scores_misc decorate1_def deco_0_1
          del: js_index.simps)
qed

text \<open>
  C2, as the code has it: the text \<open>"Go. Go. Go."\<close> is split into the candidates
  \<open>"Go"\<close>, \<open>"Go"\<close> and \<open>"Go."\<close> (no whitespace follows the last full stop), and at
  every offset and for every supported algorithm they are mapped to three ranges that
  start at \<open>offset\<close>, \<open>offset + 4\<close> and \<open>offset + 8\<close>, each ending before the next
  starts: each search starts where the previous match ended.
\<close>

theorem go_three_ranges:
  assumes "algorithm \<in> dom readabilityAlgorithms"
  shows "candidates ''Go. Go. Go.'' = [''Go'', ''Go'', ''Go.''] \<and>
    (\<exists>d1 d2 d3. extractScores ''Go. Go. Go.'' offset algorithm = Inr [d1, d2, d3] \<and>
       rfrom d1 = offset \<and> rto d1 = offset + 3 \<and>
       rfrom d2 = offset + 4 \<and> rto d2 = offset + 7 \<and>
       rfrom d3 = offset + 8 \<and> rfrom d3 < rto d3)"
proof -
  have cand: "candidates ''Go. Go. Go.'' = [''Go'', ''Go'', ''Go.'']"
    by code_simp
  have loc: "locate ''Go. Go. Go.'' offset 0 [''Go'', ''Go'', ''Go.''] =
    [\<lparr>rfrom = offset + 0, rto = offset + 3, sentence = ''Go''\<rparr>,
     \<lparr>rfrom = offset + 4, rto = offset + 7, sentence = ''Go''\<rparr>,
     \<lparr>rfrom = offset + 8, rto = offset + 12, sentence = ''Go.''\<rparr>]"
    by code_simp
  have tok: "tokenize ''Go'' = [''Go'']" "tokenize ''Go.'' = [''Go.'']"
    by code_simp+
  have kept: "filter long_enough (locate ''Go. Go. Go.'' offset 0 (candidates ''Go. Go. Go.'')) =
    [\<lparr>rfrom = offset + 0, rto = offset + 3, sentence = ''Go''\<rparr>,
     \<lparr>rfrom = offset + 4, rto = offset + 7, sentence = ''Go''\<rparr>,
     \<lparr>rfrom = offset + 8, rto = offset + 12, sentence = ''Go.''\<rparr>]"
    unfolding cand loc by (simp add: long_enough_def)
  from assms obtain f where "readabilityAlgorithms algorithm = Some f" by blast
  then have "\<exists>c. extractScores ''Go. Go. Go.'' offset algorithm =
     Inr [\<lparr>rfrom = offset + 0, rto = offset + 3, deco_class = ''cm-readability-0''\<rparr>,
          \<lparr>rfrom = offset + 4, rto = offset + 7, deco_class = ''cm-readability-0''\<rparr>,
          \<lparr>rfrom = offset + 8, rto = offset + 12, deco_class = c\<rparr>]"
    unfolding algorithms_cases extractScores_def kept
    by (auto simp add: score1_def tok algorithms_cases [THEN iffD2] scores_Go decorate1_def
          deco_0_1 simp del: js_index.simps)
  then show ?thesis using cand by auto
qed

theorem go_three_ranges_witness:
  "''coleman-liau'' \<in> dom readabilityAlgorithms \<and>
   candidates ''Go. Go. Go.'' = [''Go'', ''Go'', ''Go.''] \<and>
    (\<exists>d1 d2 d3. extractScores ''Go. Go. Go.'' 100 ''coleman-liau'' = Inr [d1, d2, d3] \<and>
       rfrom d1 = 100 \<and> rto d1 = 100 + 3 \<and>
       rfrom d2 = 100 + 4 \<and> rto d2 = 100 + 7 \<and>
       rfrom d3 = 100 + 8 \<and> rfrom d3 < rto d3)"
proof -
  have a: "''coleman-liau'' \<in> dom readabilityAlgorithms"
    by (simp add: readabilityAlgorithms_def)
  from go_three_ranges [OF a, of 100] a show ?thesis by simp
qed

text \<open>C2, as the claim has it, fails: the third candidate is \<open>"Go."\<close>, not \<open>"Go"\<close>.\<close>

theorem go_candidates_not_all_go:
  "candidates ''Go. Go. Go.'' ! 2 = ''Go.'' \<and>
   candidates ''Go. Go. Go.'' \<noteq> [''Go'', ''Go'', ''Go'']"
  by code_simp

text \<open>
  C3, at the sentence of the claim: the emphasis pattern is replaced by the empty
  string, text and all, so the copy of \<open>"*hello* world"\<close> is \<open>" world"\<close> and its word
  list is \<open>["world"]\<close>, one word; the range is that of the original sentence.
\<close>

theorem emphasis_text_removed:
  "strip_inline ''*hello* world'' = '' world'' \<and>
   tokenize (strip_inline ''*hello* world'') = [''world''] \<and>
   locate ''*hello* world'' offset 0 (candidates ''*hello* world'') =
     [\<lparr>rfrom = offset + 0, rto = offset + 14, sentence = '' world''\<rparr>]"
  by code_simp

text \<open>
  C6, at a text that breaks it: two spaces. The candidate \<open>"  "\<close> has length 2 and is
  kept, its word list is empty, its score is \<open>NaN\<close> under each of the four algorithms,
  \<open>scoreDecorations[NaN]\<close> is \<open>undefined\<close>, and the call of \<open>range\<close> on it throws.
\<close>

theorem extractScores_blank_TypeError:
  "extractScores ''  '' offset ''dale-chall'' = Inl TypeError \<and>
   extractScores ''  '' offset ''gunning-fog'' = Inl TypeError \<and>
   extractScores ''  '' offset ''coleman-liau'' = Inl TypeError \<and>
   extractScores ''  '' offset ''automated-readability'' = Inl TypeError"
proof -
  have kept: "filter long_enough (locate ''  '' offset 0 (candidates ''  '')) =
    [\<lparr>rfrom = offset + 0, rto = offset + 3, sentence = ''  ''\<rparr>]"
    by code_simp
  have tok: "tokenize ''  '' = []"
    by code_simp
  show ?thesis
    unfolding extractScores_def kept
    by (simp add: score1_def tok algorithms_cases [THEN iffD2] scores_empty decorate1_def)
qed

text \<open>
  C7, at a text that breaks it: \<open>"a "\<close>. Its one candidate \<open>"a "\<close> has the trimmed
  length 1, below 2, and is not discarded: the filter reads the length of the copy
  before it is trimmed, and a range is emitted.
\<close>

theorem short_trimmed_candidate_emitted:
  "candidates ''a '' = [''a ''] \<and> length (trim ''a '') = 1 \<and>
   extractScores ''a '' 0 ''dale-chall'' =
     Inr [\<lparr>rfrom = 0, rto = 3, deco_class = ''cm-readability-0''\<rparr>]"
proof -
  have cand: "candidates ''a '' = [''a '']" "length (trim ''a '') = 1"
    by code_simp+
  have kept: "filter long_enough (locate ''a '' 0 0 (candidates ''a '')) =
    [\<lparr>rfrom = 0, rto = 3, sentence = ''a ''\<rparr>]"
    by code_simp
  have tok: "tokenize ''a '' = [''a'']"
    by code_simp
  have "extractScores ''a '' 0 ''dale-chall'' =
     Inr [\<lparr>rfrom = 0, rto = 3, deco_class = ''cm-readability-0''\<rparr>]"
    unfolding extractScores_def kept
    by (simp add: score1_def tok algorithms_cases [THEN iffD2] scores_misc decorate1_def deco_0_1
          del: js_index.simps)
  with cand show ?thesis by blast
qed

text \<open>
  C8, at a text that breaks it: \<open>"ab\r# cd"\<close>. The heading marker behind the carriage
  return is removed, so the one candidate \<open>"ab\rcd"\<close> is no part of the text and its
  search gives \<open>-1\<close>. The candidate is not skipped: the \<open>-1\<close> is used as its position,
  and the range from \<open>-1\<close> to \<open>4\<close> is emitted.
\<close>

theorem not_found_candidate_emitted:
  "candidates (''ab'' @ [CHR 0x0D] @ ''# cd'') = [''ab'' @ [CHR 0x0D] @ ''cd''] \<and>
   indexOf (''ab'' @ [CHR 0x0D] @ ''# cd'') (''ab'' @ [CHR 0x0D] @ ''cd'') 0 = - 1 \<and>
   extractScores (''ab'' @ [CHR 0x0D] @ ''# cd'') 0 ''dale-chall'' =
     Inr [\<lparr>rfrom = - 1, rto = 4, deco_class = ''cm-readability-0''\<rparr>]"
proof -
  define T where "T = ''ab'' @ [CHR 0x0D] @ ''# cd''"
  have cand: "candidates T = [''ab'' @ [CHR 0x0D] @ ''cd'']"
    and idx: "indexOf T (''ab'' @ [CHR 0x0D] @ ''cd'') 0 = - 1"
    unfolding T_def by code_simp+
  have kept: "filter long_enough (locate T 0 0 (candidates T)) =
    [\<lparr>rfrom = - 1, rto = 4, sentence = [CHR ''a'', CHR ''b'', CHR 0x0D, CHR ''c'', CHR ''d'']\<rparr>]"
    unfolding T_def by code_simp
  have tok: "tokenize [CHR ''a'', CHR ''b'', CHR 0x0D, CHR ''c'', CHR ''d''] =
      [[CHR ''a'', CHR ''b'', CHR 0x0D, CHR ''c'', CHR ''d'']]"
    by code_simp
  have "extractScores T 0 ''dale-chall'' =
     Inr [\<lparr>rfrom = - 1, rto = 4, deco_class = ''cm-readability-0''\<rparr>]"
    unfolding extractScores_def kept
    by (simp add: score1_def tok algorithms_cases [THEN iffD2] scores_misc decorate1_def deco_0_1
          del: js_index.simps)
  with cand idx show ?thesis unfolding T_def by blast
qed

end
